theory Spec2Isabelle
  imports Main "HOL-Library.Word"
begin

section \<open>The course synchronisation endpoint of the unesco site\<close>

text \<open>
  This theory embeds \<^verbatim>\<open>sites/unesco/src/backend/unesco/courses_api/api.py\<close>:
  the function \<^verbatim>\<open>create_course\<close> and the view \<^verbatim>\<open>create_courses_from_request\<close>.
  An exception that leaves a function is the \<open>Inl\<close> branch of its result; the content
  store is passed in and returned, so that what was written before an exception stays
  visible in the returned store.
\<close>

subsection \<open>Text\<close>

text \<open>
  The raw body of a request is a byte sequence. \<^verbatim>\<open>request.body.decode("utf-8")\<close> gives
  a Python \<^verbatim>\<open>str\<close>, a sequence of Unicode code points, or raises
  \<^verbatim>\<open>UnicodeDecodeError\<close>. Header values, secrets, signatures and the payload's
  fields are of type \<open>string\<close>.
\<close>

type_synonym byte = "8 word"
type_synonym pystr = "nat list"

definition continuation :: "byte \<Rightarrow> bool" where
  "continuation b \<longleftrightarrow> 0x80 \<le> b \<and> b \<le> 0xBF"

definition low6 :: "byte \<Rightarrow> nat" where
  "low6 b = unat b mod 64"

text \<open>
  Strict UTF-8 decoding, as Python's codec does it: no overlong form, no surrogate,
  nothing above U+10FFFF, no truncated sequence.
\<close>

fun decode_utf8 :: "byte list \<Rightarrow> pystr option" where
  "decode_utf8 [] = Some []"
| "decode_utf8 (b0 # bs) =
     (if b0 < 0x80 then map_option ((#) (unat b0)) (decode_utf8 bs)
      else if 0xC2 \<le> b0 \<and> b0 \<le> 0xDF then
        (case bs of
           b1 # r \<Rightarrow>
             if continuation b1
             then map_option ((#) ((unat b0 mod 32) * 64 + low6 b1)) (decode_utf8 r)
             else None
         | _ \<Rightarrow> None)
      else if 0xE0 \<le> b0 \<and> b0 \<le> 0xEF then
        (case bs of
           b1 # b2 # r \<Rightarrow>
             if (if b0 = 0xE0 then 0xA0 else 0x80) \<le> b1
                \<and> b1 \<le> (if b0 = 0xED then 0x9F else 0xBF)
                \<and> continuation b2
             then map_option ((#) ((unat b0 mod 16) * 4096 + low6 b1 * 64 + low6 b2))
                    (decode_utf8 r)
             else None
         | _ \<Rightarrow> None)
      else if 0xF0 \<le> b0 \<and> b0 \<le> 0xF4 then
        (case bs of
           b1 # b2 # b3 # r \<Rightarrow>
             if (if b0 = 0xF0 then 0x90 else 0x80) \<le> b1
                \<and> b1 \<le> (if b0 = 0xF4 then 0x8F else 0xBF)
                \<and> continuation b2 \<and> continuation b3
             then map_option
                    ((#) ((unat b0 mod 8) * 262144 + low6 b1 * 4096 + low6 b2 * 64 + low6 b3))
                    (decode_utf8 r)
             else None
         | _ \<Rightarrow> None)
      else None)"

subsection \<open>Errors\<close>

text \<open>
  \<open>ValidationError\<close> is the exception of the REST framework; its detail is the
  dictionary it was raised with, a list of messages under each key. \<open>DoesNotExist\<close>
  and \<open>MultipleObjectsReturned\<close> are what a manager's \<^verbatim>\<open>get\<close> raises, for the
  model named. \<open>IntegrityError\<close> is the store refusing a write.
\<close>

type_synonym error_detail = "(string \<times> string list) list"

datatype model_name = PageModel | OrganizationModel | PlaceholderModel

datatype error =
    UnicodeDecodeError
  | ValidationError error_detail
  | DoesNotExist model_name
  | MultipleObjectsReturned model_name
  | IntegrityError

subsection \<open>The content store\<close>

text \<open>
  The objects of the content management system that \<^verbatim>\<open>create_course\<close> reads and
  writes. A page carries its placeholders; a course and an organization are extensions
  of a page.
\<close>

record placeholder =
  placeholder_page :: nat
  slot :: string

record page =
  page_id :: nat
  title :: string
  reverse_id :: "string option"
  publisher_is_draft :: bool
  parent :: "nat option"
  in_navigation :: bool
  template :: string
  placeholders :: "placeholder list"

record organization =
  org_id :: nat
  org_code :: string
  org_extended_object :: nat

record course =
  course_id :: nat
  extended_object :: page
  code :: string

record plugin =
  plugin_language :: string
  plugin_placeholder :: placeholder
  plugin_type :: string
  plugin_page :: page

text \<open>Each write of the library to the store is recorded in the journal, in order.\<close>

datatype store_write =
    PageCreated nat
  | CourseCreated nat
  | PageRoleCreated nat
  | PluginAdded placeholder nat
  | PermissionsGranted nat nat

record store =
  pages :: "page list"
  organizations :: "organization list"
  courses :: "course list"
  page_roles :: "nat list"
  plugins :: "plugin list"
  permissions :: "(nat \<times> nat) list"
  journal :: "store_write list"

subsection \<open>The environment\<close>

text \<open>
  What the code reads from the process and from its libraries without computing it:
  the signature function \<^verbatim>\<open>richie.apps.courses.utils.get_signature\<close>, the method
  \<^verbatim>\<open>str.upper\<close>, the setting \<^verbatim>\<open>RICHIE_COURSE_RUN_SYNC_SECRETS\<close> (\<open>None\<close> when it
  is not set), the active language, the constant \<^verbatim>\<open>Course.PAGE["template"]\<close> and the
  slots that each template declares. The theorems hold for every environment.
\<close>

record env =
  get_signature :: "pystr \<Rightarrow> string \<Rightarrow> string"
  upper :: "string \<Rightarrow> string"
  RICHIE_COURSE_RUN_SYNC_SECRETS :: "string list option"
  get_language :: string
  Course_PAGE_template :: string
  template_slots :: "string \<Rightarrow> string list"

subsection \<open>The library's operations on the store\<close>

text \<open>
  Modelled from the spec: the \<^verbatim>\<open>get\<close> of a model manager is library code. It returns
  the one object that satisfies the filter; it raises \<open>DoesNotExist\<close> when there is
  none, the lookup error of the spec, and \<open>MultipleObjectsReturned\<close> when there are
  several.
\<close>

definition objects_get :: "model_name \<Rightarrow> ('a \<Rightarrow> bool) \<Rightarrow> 'a list \<Rightarrow> error + 'a" where
  "objects_get m P xs =
     (case filter P xs of
        [] \<Rightarrow> Inl (DoesNotExist m)
      | [x] \<Rightarrow> Inr x
      | _ \<Rightarrow> Inl (MultipleObjectsReturned m))"

definition new_id :: "nat list \<Rightarrow> nat" where
  "new_id ids = Suc (foldr max ids 0)"

text \<open>
  Modelled from the spec: \<^verbatim>\<open>richie.apps.core.helpers.create_i18n_page\<close> is library
  code. It creates a draft page with the title, the parent, the navigation flag, the
  reverse identifier and the template it is given, with one placeholder for each slot
  that the template declares, and returns the page.
\<close>

definition create_i18n_page ::
  "env \<Rightarrow> string \<Rightarrow> bool \<Rightarrow> string list option \<Rightarrow> page \<Rightarrow> string option \<Rightarrow> string
     \<Rightarrow> store \<Rightarrow> page \<times> store" where
  "create_i18n_page e title' in_navigation' languages parent' reverse_id' template' s =
     (let i = new_id (map page_id (pages s));
          page_obj = \<lparr>page_id = i, title = title', reverse_id = reverse_id',
                      publisher_is_draft = True, parent = Some (page_id parent'),
                      in_navigation = in_navigation', template = template',
                      placeholders =
                        map (\<lambda>sl. \<lparr>placeholder_page = i, slot = sl\<rparr>)
                          (template_slots e template')\<rparr>
      in (page_obj, s\<lparr>pages := pages s @ [page_obj],
                      journal := journal s @ [PageCreated i]\<rparr>))"

text \<open>
  Modelled from the spec: \<^verbatim>\<open>Course.objects.create\<close> is library code. It stores a
  course bound to the page, with the code it is given; the store refuses a code that a
  course already has.
\<close>

definition Course_objects_create :: "page \<Rightarrow> string \<Rightarrow> store \<Rightarrow> (error + course) \<times> store" where
  "Course_objects_create extended_object' code' s =
     (if list_ex (\<lambda>c. code c = code') (courses s) then (Inl IntegrityError, s)
      else
        (let course_obj = \<lparr>course_id = new_id (map course_id (courses s)),
                           extended_object = extended_object', code = code'\<rparr>
         in (Inr course_obj,
             s\<lparr>courses := courses s @ [course_obj],
               journal := journal s @ [CourseCreated (course_id course_obj)]\<rparr>)))"

text \<open>Modelled from the spec: \<^verbatim>\<open>Course.create_page_role\<close> is library code.\<close>

definition create_page_role :: "course \<Rightarrow> store \<Rightarrow> store" where
  "create_page_role course_obj s =
     s\<lparr>page_roles := page_roles s @ [course_id course_obj],
       journal := journal s @ [PageRoleCreated (course_id course_obj)]\<rparr>"

text \<open>Modelled from the spec: \<^verbatim>\<open>cms.api.add_plugin\<close> is library code.\<close>

definition add_plugin :: "string \<Rightarrow> placeholder \<Rightarrow> string \<Rightarrow> page \<Rightarrow> store \<Rightarrow> store" where
  "add_plugin language placeholder' plugin_type' page' s =
     s\<lparr>plugins := plugins s @
          [\<lparr>plugin_language = language, plugin_placeholder = placeholder',
            plugin_type = plugin_type', plugin_page = page'\<rparr>],
       journal := journal s @ [PluginAdded placeholder' (page_id page')]\<rparr>"

text \<open>
  Modelled from the spec: \<^verbatim>\<open>Course.create_permissions_for_organization\<close> is library
  code.
\<close>

definition create_permissions_for_organization :: "course \<Rightarrow> organization \<Rightarrow> store \<Rightarrow> store" where
  "create_permissions_for_organization course_obj org_obj s =
     s\<lparr>permissions := permissions s @ [(course_id course_obj, org_id org_obj)],
       journal := journal s @ [PermissionsGranted (course_id course_obj) (org_id org_obj)]\<rparr>"

subsection \<open>\<^verbatim>\<open>create_course\<close>\<close>

definition missing_fields :: error where
  "missing_fields =
     ValidationError
       [(''input_data'',
         [''You must pass course_code, course_title and organization_code.''])]"

definition create_course :: "env \<Rightarrow> (string \<rightharpoonup> string) \<Rightarrow> store \<Rightarrow> (error + unit) \<times> store" where
  "create_course e data s =
     (case data ''course_code'' of
        None \<Rightarrow> (Inl missing_fields, s)
      | Some code' \<Rightarrow>
     (case data ''course_title'' of
        None \<Rightarrow> (Inl missing_fields, s)
      | Some title' \<Rightarrow>
     (case data ''organization_code'' of
        None \<Rightarrow> (Inl missing_fields, s)
      | Some organization_code \<Rightarrow>
     (case objects_get PageModel
             (\<lambda>p. reverse_id p = Some ''courses'' \<and> publisher_is_draft p) (pages s) of
        Inl err \<Rightarrow> (Inl err, s)
      | Inr courses_page \<Rightarrow>
     (case objects_get OrganizationModel
             (\<lambda>org. org_code org = upper e organization_code) (organizations s) of
        Inl err \<Rightarrow> (Inl err, s)
      | Inr org_obj \<Rightarrow>
     (case objects_get PageModel
             (\<lambda>p. list_ex (\<lambda>org. org_extended_object org = page_id p
                                  \<and> org_id org = org_id org_obj) (organizations s)
                   \<and> publisher_is_draft p) (pages s) of
        Inl err \<Rightarrow> (Inl err, s)
      | Inr organization_page \<Rightarrow>
     (case create_i18n_page e title' False None courses_page None (Course_PAGE_template e) s of
        (page_obj, s1) \<Rightarrow>
     (case Course_objects_create page_obj code' s1 of
        (Inl err, s2) \<Rightarrow> (Inl err, s2)
      | (Inr course_obj, s2) \<Rightarrow>
     (case create_page_role course_obj s2 of
        s3 \<Rightarrow>
     (case objects_get PlaceholderModel (\<lambda>ph. slot ph = ''course_organizations'')
             (placeholders (extended_object course_obj)) of
        Inl err \<Rightarrow> (Inl err, s3)
      | Inr placeholder' \<Rightarrow>
          (Inr (),
           create_permissions_for_organization course_obj org_obj
             (add_plugin (get_language e) placeholder' ''OrganizationPlugin''
                organization_page s3))))))))))))"

subsection \<open>\<^verbatim>\<open>create_courses_from_request\<close>\<close>

text \<open>
  What the view reads from the request: the raw body, the headers, and the payload that
  the framework parsed from the body, a dictionary from field names to strings. A
  response carries a plain text or a dictionary, and a status.
\<close>

record request =
  body :: "byte list"
  headers :: "string \<rightharpoonup> string"
  data :: "string \<rightharpoonup> string"

datatype response_data = Text string | Dict "(string \<times> error_detail) list"

datatype response = Response (response_data: response_data) (status: nat)

text \<open>
  Modelled from the spec: \<^verbatim>\<open>as_serializer_error\<close> is library code. On a validation
  error whose detail is a dictionary of lists it gives that dictionary.
\<close>

fun as_serializer_error :: "error \<Rightarrow> error_detail" where
  "as_serializer_error (ValidationError detail) = detail"
| "as_serializer_error _ = []"

definition secrets :: "env \<Rightarrow> string list" where
  "secrets e = (case RICHIE_COURSE_RUN_SYNC_SECRETS e of None \<Rightarrow> [] | Some l \<Rightarrow> l)"

definition signature_is_valid :: "env \<Rightarrow> string \<Rightarrow> pystr \<Rightarrow> bool" where
  "signature_is_valid e authorization_header message =
     list_ex (\<lambda>secret. authorization_header = get_signature e message secret) (secrets e)"

definition create_courses_from_request ::
  "env \<Rightarrow> request \<Rightarrow> string \<Rightarrow> store \<Rightarrow> (error + response) \<times> store" where
  "create_courses_from_request e request version s =
     (case decode_utf8 (body request) of
        None \<Rightarrow> (Inl UnicodeDecodeError, s)
      | Some message \<Rightarrow>
     (case headers request ''Authorization'' of
        None \<Rightarrow> (Inr (Response (Text ''Missing authentication.'') 403), s)
      | Some authorization_header \<Rightarrow>
          if authorization_header = [] then
            (Inr (Response (Text ''Missing authentication.'') 403), s)
          else if \<not> signature_is_valid e authorization_header message then
            (Inr (Response (Text ''Invalid authentication.'') 401), s)
          else
            (case create_course e (data request) s of
               (Inr _, s') \<Rightarrow> (Inr (Response (Dict []) 200), s')
             | (Inl (ValidationError detail), s') \<Rightarrow>
                 (Inr (Response (Dict [(''error'', as_serializer_error (ValidationError detail))])
                         400), s')
             | (Inl err, s') \<Rightarrow> (Inl err, s'))))"

subsection \<open>An example installation\<close>

text \<open>
  A concrete environment, store and requests, on which the definitions are evaluated.
  \<open>example_signature\<close> is a keyed function that stands for the HMAC of the library,
  and \<open>ascii_upper\<close> is \<^verbatim>\<open>str.upper\<close> on ASCII text.
\<close>

definition ascii_upper :: "string \<Rightarrow> string" where
  "ascii_upper =
     map (\<lambda>c. if 97 \<le> (of_char c :: nat) \<and> (of_char c :: nat) \<le> 122
               then (case c of Char b0 b1 b2 b3 b4 b5 b6 b7 \<Rightarrow> Char b0 b1 b2 b3 b4 False b6 b7)
               else c)"

definition example_signature :: "pystr \<Rightarrow> string \<Rightarrow> string" where
  "example_signature message secret =
     ''SIG-HMAC-SHA256 '' @ secret @ '':''
       @ map (\<lambda>n. if even n then CHR ''0'' else CHR ''1'') message"

definition course_detail_template :: string where
  "course_detail_template = ''courses/cms/course_detail.html''"

definition example_env :: env where
  "example_env =
     \<lparr>get_signature = example_signature, upper = ascii_upper,
      RICHIE_COURSE_RUN_SYNC_SECRETS = Some [''old-secret'', ''new-secret''],
      get_language = ''en'', Course_PAGE_template = course_detail_template,
      template_slots =
        (\<lambda>t. if t = course_detail_template
              then [''course_synopsis'', ''course_organizations''] else [])\<rparr>"

definition courses_root_page :: page where
  "courses_root_page =
     \<lparr>page_id = 1, title = ''Courses'', reverse_id = Some ''courses'',
      publisher_is_draft = True, parent = None, in_navigation = True,
      template = ''search/search.html'', placeholders = []\<rparr>"

definition example_organization_page :: page where
  "example_organization_page =
     \<lparr>page_id = 2, title = ''Organization 123'', reverse_id = None,
      publisher_is_draft = True, parent = None, in_navigation = True,
      template = ''courses/cms/organization_detail.html'', placeholders = []\<rparr>"

definition example_organization :: organization where
  "example_organization = \<lparr>org_id = 1, org_code = ''ORG123'', org_extended_object = 2\<rparr>"

definition example_store :: store where
  "example_store =
     \<lparr>pages = [courses_root_page, example_organization_page],
      organizations = [example_organization], courses = [], page_roles = [],
      plugins = [], permissions = [], journal = []\<rparr>"

text \<open>The same store without the courses root page.\<close>

definition store_without_courses_page :: store where
  "store_without_courses_page = example_store\<lparr>pages := [example_organization_page]\<rparr>"

text \<open>
  The body is the JSON text
  \<^verbatim>\<open>{"course_code": "Cs101", "course_title": "Algebra", "organization_code": "org123"}\<close>
  and \<open>example_message\<close> its code points.
\<close>

definition example_body :: "byte list" where
  "example_body =
     [0x7B, 0x22, 0x63, 0x6F, 0x75, 0x72, 0x73, 0x65, 0x5F, 0x63, 0x6F, 0x64, 0x65,
      0x22, 0x3A, 0x20, 0x22, 0x43, 0x73, 0x31, 0x30, 0x31, 0x22, 0x2C, 0x20, 0x22,
      0x63, 0x6F, 0x75, 0x72, 0x73, 0x65, 0x5F, 0x74, 0x69, 0x74, 0x6C, 0x65, 0x22,
      0x3A, 0x20, 0x22, 0x41, 0x6C, 0x67, 0x65, 0x62, 0x72, 0x61, 0x22, 0x2C, 0x20,
      0x22, 0x6F, 0x72, 0x67, 0x61, 0x6E, 0x69, 0x7A, 0x61, 0x74, 0x69, 0x6F, 0x6E,
      0x5F, 0x63, 0x6F, 0x64, 0x65, 0x22, 0x3A, 0x20, 0x22, 0x6F, 0x72, 0x67, 0x31,
      0x32, 0x33, 0x22, 0x7D]"

definition example_message :: pystr where
  "example_message =
     [123, 34, 99, 111, 117, 114, 115, 101, 95, 99, 111, 100, 101, 34, 58, 32, 34, 67,
      115, 49, 48, 49, 34, 44, 32, 34, 99, 111, 117, 114, 115, 101, 95, 116, 105, 116,
      108, 101, 34, 58, 32, 34, 65, 108, 103, 101, 98, 114, 97, 34, 44, 32, 34, 111,
      114, 103, 97, 110, 105, 122, 97, 116, 105, 111, 110, 95, 99, 111, 100, 101, 34,
      58, 32, 34, 111, 114, 103, 49, 50, 51, 34, 125]"

definition example_payload :: "string \<rightharpoonup> string" where
  "example_payload =
     [''course_code'' \<mapsto> ''Cs101'', ''course_title'' \<mapsto> ''Algebra'',
      ''organization_code'' \<mapsto> ''org123'']"

definition example_request :: request where
  "example_request =
     \<lparr>body = example_body,
      headers = [''Authorization'' \<mapsto> example_signature example_message ''new-secret''],
      data = example_payload\<rparr>"

text \<open>Requests that fail: fields missing, fields empty, a header that is empty, a body
  that is not UTF-8 (the byte 0xFF), with no header and with an empty one.\<close>

definition request_without_title :: request where
  "request_without_title =
     example_request\<lparr>data := [''course_code'' \<mapsto> ''Cs101'', ''organization_code'' \<mapsto> ''org123'']\<rparr>"

definition request_with_empty_fields :: request where
  "request_with_empty_fields =
     example_request\<lparr>data := [''course_code'' \<mapsto> [], ''course_title'' \<mapsto> [],
                               ''organization_code'' \<mapsto> []]\<rparr>"

definition request_with_unknown_organization :: request where
  "request_with_unknown_organization =
     example_request\<lparr>data := [''course_code'' \<mapsto> ''Cs101'', ''course_title'' \<mapsto> ''Algebra'',
                               ''organization_code'' \<mapsto> ''org999'']\<rparr>"

definition request_with_empty_header :: request where
  "request_with_empty_header = example_request\<lparr>headers := [''Authorization'' \<mapsto> []]\<rparr>"

definition request_with_wrong_header :: request where
  "request_with_wrong_header =
     example_request\<lparr>headers :=
       [''Authorization'' \<mapsto> example_signature example_message ''other-secret'']\<rparr>"

definition request_without_header :: request where
  "request_without_header = example_request\<lparr>headers := Map.empty\<rparr>"

definition undecodable_request :: request where
  "undecodable_request = \<lparr>body = [0xFF], headers = Map.empty, data = Map.empty\<rparr>"

definition undecodable_request_with_empty_header :: request where
  "undecodable_request_with_empty_header =
     \<lparr>body = [0xFF], headers = [''Authorization'' \<mapsto> []], data = Map.empty\<rparr>"

text \<open>The store without the page of the organization, the store whose organization has an
  empty code, and the environment whose course template lacks the slot.\<close>

definition store_without_organization_page :: store where
  "store_without_organization_page = example_store\<lparr>pages := [courses_root_page]\<rparr>"

definition store_with_unnamed_organization :: store where
  "store_with_unnamed_organization =
     example_store\<lparr>organizations := [example_organization\<lparr>org_code := []\<rparr>]\<rparr>"

definition env_without_slot :: env where
  "env_without_slot = example_env\<lparr>template_slots := (\<lambda>t. [''course_synopsis''])\<rparr>"

section \<open>Properties\<close>

subsection \<open>Lookups and the example installation\<close>

lemma objects_get_Inr: "objects_get m P xs = Inr x \<longleftrightarrow> filter P xs = [x]"
  by (auto simp: objects_get_def split: list.splits)

lemma objects_get_not_validation: "objects_get m P xs \<noteq> Inl (ValidationError d)"
  by (auto simp: objects_get_def split: list.splits)

lemma objects_get_empty: "filter P xs = [] \<Longrightarrow> objects_get m P xs = Inl (DoesNotExist m)"
  by (simp add: objects_get_def)

lemma decode_example_body: "decode_utf8 example_body = Some example_message"
  by (simp add: example_body_def example_message_def)

lemma secrets_example_env: "secrets example_env = [''old-secret'', ''new-secret'']"
  by (simp add: secrets_def example_env_def)

lemma signature_is_valid_iff:
  "signature_is_valid e h message \<longleftrightarrow>
     (\<exists>secret \<in> set (secrets e). h = get_signature e message secret)"
  by (simp add: signature_is_valid_def list_ex_iff)

lemma example_request_valid:
  "signature_is_valid example_env (example_signature example_message ''new-secret'')
     example_message"
  by (simp add: signature_is_valid_def secrets_example_env) (simp add: example_env_def)

lemma example_signature_nonempty: "example_signature message secret \<noteq> []"
  by (simp add: example_signature_def)

lemma wrong_header_invalid:
  "\<not> signature_is_valid example_env (example_signature example_message ''other-secret'')
     example_message"
  by (simp add: signature_is_valid_def secrets_example_env)
     (simp add: example_env_def example_signature_def)

subsection \<open>Signature verification\<close>

text \<open>
  Claim C1. For every decoded body and every header, the signature check succeeds if and
  only if the header equals the signature computed over the body with one of the
  configured secrets. So the signature of any configured secret is accepted, nothing is
  accepted when no secret is configured, and a request with a non-empty header gets the
  401 response exactly when no configured secret gives its header.
\<close>

theorem signature_verification:
  "(signature_is_valid e authorization_header message \<longleftrightarrow>
      (\<exists>secret \<in> set (secrets e). authorization_header = get_signature e message secret))
   \<and> (\<forall>secret \<in> set (secrets e).
        signature_is_valid e (get_signature e message secret) message)
   \<and> (secrets e = [] \<longrightarrow> \<not> signature_is_valid e authorization_header message)
   \<and> (decode_utf8 (body request) = Some message
        \<and> headers request ''Authorization'' = Some authorization_header
        \<and> authorization_header \<noteq> [] \<longrightarrow>
        (create_courses_from_request e request version s
           = (Inr (Response (Text ''Invalid authentication.'') 401), s)
         \<longleftrightarrow> \<not> (\<exists>secret \<in> set (secrets e).
                   authorization_header = get_signature e message secret)))"
proof -
  have iff: "\<And>h. signature_is_valid e h message \<longleftrightarrow>
      (\<exists>secret \<in> set (secrets e). h = get_signature e message secret)"
    by (rule signature_is_valid_iff)
  have all: "\<forall>secret \<in> set (secrets e).
        signature_is_valid e (get_signature e message secret) message"
    using iff by blast
  have none: "secrets e = [] \<longrightarrow> \<not> signature_is_valid e authorization_header message"
    by (simp add: signature_is_valid_def)
  have endpoint: "create_courses_from_request e request version s
           = (Inr (Response (Text ''Invalid authentication.'') 401), s)
         \<longleftrightarrow> \<not> signature_is_valid e authorization_header message"
    if "decode_utf8 (body request) = Some message"
      and "headers request ''Authorization'' = Some authorization_header"
      and "authorization_header \<noteq> []"
    using that
    by (auto simp: create_courses_from_request_def
          split: prod.splits sum.splits error.splits)
  show ?thesis using iff all none endpoint by blast
qed

text \<open>The request signed with the second of the two configured secrets is accepted.\<close>

theorem signature_verification_witness:
  "''new-secret'' \<in> set (secrets example_env)
   \<and> signature_is_valid example_env
        (get_signature example_env example_message ''new-secret'') example_message
   \<and> decode_utf8 (body example_request) = Some example_message
   \<and> headers example_request ''Authorization''
        = Some (get_signature example_env example_message ''new-secret'')
   \<and> get_signature example_env example_message ''new-secret'' \<noteq> []
   \<and> create_courses_from_request example_env example_request ''1.0'' example_store
        \<noteq> (Inr (Response (Text ''Invalid authentication.'') 401), example_store)"
proof -
  have mem: "''new-secret'' \<in> set (secrets example_env)"
    by (simp add: secrets_example_env)
  have dec: "decode_utf8 (body example_request) = Some example_message"
    by (simp add: example_request_def decode_example_body)
  have hdr: "headers example_request ''Authorization''
        = Some (get_signature example_env example_message ''new-secret'')"
    by (simp add: example_request_def example_env_def)
  have ne: "get_signature example_env example_message ''new-secret'' \<noteq> []"
    by (simp add: example_env_def example_signature_nonempty)
  show ?thesis
    using mem dec hdr ne
      signature_verification [of example_env
        "get_signature example_env example_message ''new-secret''" example_message
        example_request "''1.0''" example_store]
    by blast
qed

lemmas example_defs = example_env_def example_store_def example_payload_def
  courses_root_page_def example_organization_page_def example_organization_def
  course_detail_template_def ascii_upper_def store_without_courses_page_def
  store_without_organization_page_def store_with_unnamed_organization_def
  env_without_slot_def

lemmas operation_defs = create_course_def create_i18n_page_def Course_objects_create_def
  create_page_role_def add_plugin_def create_permissions_for_organization_def
  objects_get_def new_id_def Let_def

lemma create_course_validation:
  assumes "create_course e payload s = (Inl (ValidationError d), s')"
  shows "s' = s \<and> ValidationError d = missing_fields
     \<and> (payload ''course_code'' = None \<or> payload ''course_title'' = None
        \<or> payload ''organization_code'' = None)"
  using assms
  by (auto simp: create_course_def create_i18n_page_def Course_objects_create_def Let_def
        objects_get_not_validation
      split: option.splits sum.splits prod.splits if_splits)

lemma create_course_missing:
  assumes "payload ''course_code'' = None \<or> payload ''course_title'' = None
        \<or> payload ''organization_code'' = None"
  shows "create_course e payload s = (Inl missing_fields, s)"
  using assms by (auto simp: create_course_def split: option.splits)

lemma endpoint_authenticated:
  assumes "decode_utf8 (body request) = Some message"
    and "headers request ''Authorization'' = Some authorization_header"
    and "authorization_header \<noteq> []"
    and "signature_is_valid e authorization_header message"
  shows "create_courses_from_request e request version s =
     (case create_course e (data request) s of
        (Inr u, s') \<Rightarrow> (Inr (Response (Dict []) 200), s')
      | (Inl (ValidationError detail), s') \<Rightarrow>
          (Inr (Response (Dict [(''error'', detail)]) 400), s')
      | (Inl err, s') \<Rightarrow> (Inl err, s'))"
  using assms
  by (simp add: create_courses_from_request_def split: prod.splits sum.splits error.splits)

lemma example_request_authenticated:
  "decode_utf8 (body example_request) = Some example_message"
  "headers example_request ''Authorization''
     = Some (example_signature example_message ''new-secret'')"
  "example_signature example_message ''new-secret'' \<noteq> []"
  "signature_is_valid example_env (example_signature example_message ''new-secret'')
     example_message"
  by (simp_all add: example_request_def decode_example_body example_signature_nonempty
        example_request_valid)

lemma request_without_title_authenticated:
  "decode_utf8 (body request_without_title) = Some example_message"
  "headers request_without_title ''Authorization''
     = Some (example_signature example_message ''new-secret'')"
  by (simp_all add: request_without_title_def example_request_def decode_example_body)

subsection \<open>Validation of the payload\<close>

text \<open>
  Claim C3. When at least one of \<open>course_code\<close>, \<open>course_title\<close> and
  \<open>organization_code\<close> is missing from the payload, \<^verbatim>\<open>create_course\<close> raises a
  validation error whose detail is one message, under the key \<open>input_data\<close>, that names
  the three fields together, whichever fields are missing; for an authenticated request
  the endpoint answers with status 400 and the body \<open>{"error": detail}\<close>.
\<close>

theorem missing_fields_rejected:
  assumes "data request ''course_code'' = None \<or> data request ''course_title'' = None
             \<or> data request ''organization_code'' = None"
  shows "create_course e (data request) s =
           (Inl (ValidationError
                   [(''input_data'',
                     [''You must pass '' @ ''course_code'' @ '', '' @ ''course_title''
                        @ '' and '' @ ''organization_code'' @ ''.''])]), s)
         \<and> (decode_utf8 (body request) = Some message
              \<and> headers request ''Authorization'' = Some authorization_header
              \<and> authorization_header \<noteq> []
              \<and> signature_is_valid e authorization_header message \<longrightarrow>
            create_courses_from_request e request version s =
              (Inr (Response
                      (Dict [(''error'',
                              [(''input_data'',
                                [''You must pass course_code, course_title and organization_code.''])])])
                      400), s))"
proof -
  have raised: "create_course e (data request) s = (Inl missing_fields, s)"
    using assms by (rule create_course_missing)
  have surfaced: "create_courses_from_request e request version s =
      (Inr (Response (Dict [(''error'', as_serializer_error missing_fields)]) 400), s)"
    if "decode_utf8 (body request) = Some message"
      and "headers request ''Authorization'' = Some authorization_header"
      and "authorization_header \<noteq> []"
      and "signature_is_valid e authorization_header message"
    using endpoint_authenticated [OF that, of version s] raised
    by (simp add: missing_fields_def)
  show ?thesis using raised surfaced by (simp add: missing_fields_def)
qed

text \<open>The example request without its title gets the 400 response.\<close>

theorem missing_fields_rejected_witness:
  "data request_without_title ''course_title'' = None
   \<and> decode_utf8 (body request_without_title) = Some example_message
   \<and> signature_is_valid example_env (example_signature example_message ''new-secret'')
        example_message
   \<and> create_courses_from_request example_env request_without_title ''1.0'' example_store =
       (Inr (Response
               (Dict [(''error'',
                       [(''input_data'',
                         [''You must pass course_code, course_title and organization_code.''])])])
               400), example_store)"
proof -
  have missing: "data request_without_title ''course_title'' = None"
    by (simp add: request_without_title_def)
  then have hyp: "data request_without_title ''course_code'' = None
      \<or> data request_without_title ''course_title'' = None
      \<or> data request_without_title ''organization_code'' = None"
    by simp
  show ?thesis
    using missing request_without_title_authenticated example_request_authenticated(3,4)
      missing_fields_rejected [OF hyp, of example_env example_store example_message
        "example_signature example_message ''new-secret''" "''1.0''"]
    by simp
qed

text \<open>
  Claim C6. When \<^verbatim>\<open>create_course\<close> fails with the validation error, the store it
  returns is the store it was given: the fields are checked before any lookup and any
  write, and the error arises from a missing field only.
\<close>

theorem validation_failure_writes_nothing:
  assumes "create_course e payload s = (Inl (ValidationError detail), s')"
  shows "s' = s
     \<and> (payload ''course_code'' = None \<or> payload ''course_title'' = None
          \<or> payload ''organization_code'' = None)"
  using create_course_validation [OF assms] by simp

text \<open>The example payload without its title leaves the example store as it was.\<close>

theorem validation_failure_writes_nothing_witness:
  "fst (create_course example_env (data request_without_title) example_store)
     = Inl (ValidationError
              [(''input_data'',
                [''You must pass course_code, course_title and organization_code.''])])
   \<and> snd (create_course example_env (data request_without_title) example_store)
       = example_store
   \<and> data request_without_title ''course_title'' = None"
proof -
  have run: "create_course example_env (data request_without_title) example_store
     = (Inl (ValidationError
               [(''input_data'',
                 [''You must pass course_code, course_title and organization_code.''])]),
        snd (create_course example_env (data request_without_title) example_store))"
    by (simp add: create_course_def request_without_title_def missing_fields_def)
  have unchanged: "snd (create_course example_env (data request_without_title) example_store)
       = example_store"
    using validation_failure_writes_nothing [OF run] by (rule conjunct1)
  have raised: "fst (create_course example_env (data request_without_title) example_store)
     = Inl (ValidationError
              [(''input_data'',
                [''You must pass course_code, course_title and organization_code.''])])"
    using run by (metis fst_conv)
  show ?thesis
    using raised unchanged by (simp add: request_without_title_def)
qed

subsection \<open>A successful creation\<close>

text \<open>What a successful call found and what it wrote.\<close>

lemma create_course_success:
  assumes "create_course e payload s = (Inr u, s')"
  shows "\<exists>code' title' organization_code courses_page org_obj organization_page page_obj
            course_obj placeholder'.
     payload ''course_code'' = Some code' \<and> payload ''course_title'' = Some title'
     \<and> payload ''organization_code'' = Some organization_code
     \<and> filter (\<lambda>p. reverse_id p = Some ''courses'' \<and> publisher_is_draft p) (pages s)
          = [courses_page]
     \<and> filter (\<lambda>org. org_code org = upper e organization_code) (organizations s) = [org_obj]
     \<and> filter (\<lambda>p. list_ex (\<lambda>org. org_extended_object org = page_id p
                                  \<and> org_id org = org_id org_obj) (organizations s)
                   \<and> publisher_is_draft p) (pages s) = [organization_page]
     \<and> page_obj = \<lparr>page_id = new_id (map page_id (pages s)), title = title',
          reverse_id = None, publisher_is_draft = True, parent = Some (page_id courses_page),
          in_navigation = False, template = Course_PAGE_template e,
          placeholders =
            map (\<lambda>sl. \<lparr>placeholder_page = new_id (map page_id (pages s)), slot = sl\<rparr>)
              (template_slots e (Course_PAGE_template e))\<rparr>
     \<and> \<not> list_ex (\<lambda>c. code c = code') (courses s)
     \<and> course_obj = \<lparr>course_id = new_id (map course_id (courses s)),
                      extended_object = page_obj, code = code'\<rparr>
     \<and> filter (\<lambda>ph. slot ph = ''course_organizations'') (placeholders page_obj)
          = [placeholder']
     \<and> s' = s\<lparr>pages := pages s @ [page_obj], courses := courses s @ [course_obj],
              page_roles := page_roles s @ [course_id course_obj],
              plugins := plugins s @
                [\<lparr>plugin_language = get_language e, plugin_placeholder = placeholder',
                  plugin_type = ''OrganizationPlugin'', plugin_page = organization_page\<rparr>],
              permissions := permissions s @ [(course_id course_obj, org_id org_obj)],
              journal := journal s @
                [PageCreated (page_id page_obj), CourseCreated (course_id course_obj),
                 PageRoleCreated (course_id course_obj),
                 PluginAdded placeholder' (page_id organization_page),
                 PermissionsGranted (course_id course_obj) (org_id org_obj)]\<rparr>"
  using assms
  by (auto simp: create_course_def create_i18n_page_def Course_objects_create_def Let_def
        objects_get_Inr create_page_role_def add_plugin_def
        create_permissions_for_organization_def
      split: option.splits sum.splits prod.splits if_splits)

lemma create_course_example:
  "create_course example_env example_payload example_store =
  (Inr (),
   example_store\<lparr>
     pages := [courses_root_page, example_organization_page,
       \<lparr>page_id = 3, title = ''Algebra'', reverse_id = None, publisher_is_draft = True,
        parent = Some 1, in_navigation = False, template = course_detail_template,
        placeholders = [\<lparr>placeholder_page = 3, slot = ''course_synopsis''\<rparr>,
                        \<lparr>placeholder_page = 3, slot = ''course_organizations''\<rparr>]\<rparr>],
     courses := [\<lparr>course_id = 1, extended_object =
       \<lparr>page_id = 3, title = ''Algebra'', reverse_id = None, publisher_is_draft = True,
        parent = Some 1, in_navigation = False, template = course_detail_template,
        placeholders = [\<lparr>placeholder_page = 3, slot = ''course_synopsis''\<rparr>,
                        \<lparr>placeholder_page = 3, slot = ''course_organizations''\<rparr>]\<rparr>,
        code = ''Cs101''\<rparr>],
     page_roles := [1],
     plugins := [\<lparr>plugin_language = ''en'',
        plugin_placeholder = \<lparr>placeholder_page = 3, slot = ''course_organizations''\<rparr>,
        plugin_type = ''OrganizationPlugin'', plugin_page = example_organization_page\<rparr>],
     permissions := [(1, 1)],
     journal := [PageCreated 3, CourseCreated 1, PageRoleCreated 1,
        PluginAdded \<lparr>placeholder_page = 3, slot = ''course_organizations''\<rparr> 2,
        PermissionsGranted 1 1]\<rparr>)"
  by (simp add: example_defs operation_defs)

text \<open>
  Claim C7. In every successful execution of \<^verbatim>\<open>create_course\<close> the writes are, in
  order: the page, the course, the page role, the organization plugin in the
  \<open>course_organizations\<close> placeholder of the course's page, and last the permissions
  of the organization. The plugin is attached strictly before the permissions are granted.
\<close>

theorem organization_linked_before_permissions:
  assumes "create_course e payload s = (Inr u, s')"
  shows "\<exists>page_obj course_obj placeholder' organization_page org_obj.
      journal s' = journal s @
        [PageCreated (page_id page_obj), CourseCreated (course_id course_obj),
         PageRoleCreated (course_id course_obj),
         PluginAdded placeholder' (page_id organization_page),
         PermissionsGranted (course_id course_obj) (org_id org_obj)]
      \<and> slot placeholder' = ''course_organizations''
      \<and> placeholder' \<in> set (placeholders page_obj)
      \<and> courses s' = courses s @ [course_obj]
      \<and> extended_object course_obj = page_obj
      \<and> org_obj \<in> set (organizations s)
      \<and> organization_page \<in> set (pages s)
      \<and> plugins s' = plugins s @
            [\<lparr>plugin_language = get_language e, plugin_placeholder = placeholder',
              plugin_type = ''OrganizationPlugin'', plugin_page = organization_page\<rparr>]
      \<and> permissions s' = permissions s @ [(course_id course_obj, org_id org_obj)]"
proof -
  from create_course_success [OF assms] show ?thesis
  proof (elim exE conjE)
    fix code' title' organization_code courses_page org_obj organization_page page_obj course_obj placeholder'
    assume org: "filter (\<lambda>org. org_code org = upper e organization_code) (organizations s)
                  = [org_obj]"
      and orgpage: "filter (\<lambda>p. list_ex (\<lambda>org. org_extended_object org = page_id p
                                  \<and> org_id org = org_id org_obj) (organizations s)
                   \<and> publisher_is_draft p) (pages s) = [organization_page]"
      and course: "course_obj = \<lparr>course_id = new_id (map course_id (courses s)),
                      extended_object = page_obj, code = code'\<rparr>"
      and ph: "filter (\<lambda>ph. slot ph = ''course_organizations'') (placeholders page_obj)
                 = [placeholder']"
      and s': "s' = s\<lparr>pages := pages s @ [page_obj], courses := courses s @ [course_obj],
              page_roles := page_roles s @ [course_id course_obj],
              plugins := plugins s @
                [\<lparr>plugin_language = get_language e, plugin_placeholder = placeholder',
                  plugin_type = ''OrganizationPlugin'', plugin_page = organization_page\<rparr>],
              permissions := permissions s @ [(course_id course_obj, org_id org_obj)],
              journal := journal s @
                [PageCreated (page_id page_obj), CourseCreated (course_id course_obj),
                 PageRoleCreated (course_id course_obj),
                 PluginAdded placeholder' (page_id organization_page),
                 PermissionsGranted (course_id course_obj) (org_id org_obj)]\<rparr>"
    have "placeholder' \<in> set (filter (\<lambda>ph. slot ph = ''course_organizations'')
                                 (placeholders page_obj))"
      by (simp add: ph)
    then have ph_in: "placeholder' \<in> set (placeholders page_obj)"
      and ph_slot: "slot placeholder' = ''course_organizations''"
      by simp_all
    have "org_obj \<in> set (filter (\<lambda>org. org_code org = upper e organization_code)
                           (organizations s))"
      by (simp add: org)
    then have org_in: "org_obj \<in> set (organizations s)" by simp
    have "organization_page \<in> set (filter (\<lambda>p. list_ex (\<lambda>org. org_extended_object org = page_id p
                                    \<and> org_id org = org_id org_obj) (organizations s)
                     \<and> publisher_is_draft p) (pages s))"
      by (simp add: orgpage)
    then have page_in: "organization_page \<in> set (pages s)" by simp
    have ext: "extended_object course_obj = page_obj" by (simp add: course)
    have cs: "courses s' = courses s @ [course_obj]" by (simp add: s')
    have j: "journal s' = journal s @
          [PageCreated (page_id page_obj), CourseCreated (course_id course_obj),
           PageRoleCreated (course_id course_obj),
           PluginAdded placeholder' (page_id organization_page),
           PermissionsGranted (course_id course_obj) (org_id org_obj)]"
      by (simp add: s')
    have pl: "plugins s' = plugins s @
              [\<lparr>plugin_language = get_language e, plugin_placeholder = placeholder',
                plugin_type = ''OrganizationPlugin'', plugin_page = organization_page\<rparr>]"
      by (simp add: s')
    have pe: "permissions s' = permissions s @ [(course_id course_obj, org_id org_obj)]"
      by (simp add: s')
    show ?thesis
      apply (rule exI [of _ page_obj])
      apply (rule exI [of _ course_obj])
      apply (rule exI [of _ placeholder'])
      apply (rule exI [of _ organization_page])
      apply (rule exI [of _ org_obj])
      apply (simp only: j ph_slot ph_in cs ext org_in page_in pl pe simp_thms)
      done
  qed
qed

text \<open>In the example the plugin is the fourth write and the grant the fifth.\<close>

theorem organization_linked_before_permissions_witness:
  "fst (create_course example_env example_payload example_store) = Inr ()
   \<and> journal (snd (create_course example_env example_payload example_store)) =
       [PageCreated 3, CourseCreated 1, PageRoleCreated 1,
        PluginAdded \<lparr>placeholder_page = 3, slot = ''course_organizations''\<rparr> 2,
        PermissionsGranted 1 1]"
proof -
  have run: "create_course example_env example_payload example_store
     = (Inr (), snd (create_course example_env example_payload example_store))"
    by (simp add: create_course_example)
  from organization_linked_before_permissions [OF run]
  show ?thesis
    by (elim exE conjE) (simp (no_asm) add: create_course_example)
qed

text \<open>
  Claim C8. After every successful call the store has one more course and one more page.
  The course has the \<open>course_code\<close> of the payload, unchanged, and is bound to the new
  page; the new page is a child of the draft page whose reverse identifier is
  \<open>courses\<close>, is not in the navigation, has no reverse identifier, has the template
  \<^verbatim>\<open>Course.PAGE["template"]\<close> and the title of the payload.
\<close>

theorem course_and_page_created_as_given:
  assumes "create_course e payload s = (Inr u, s')"
  shows "\<exists>courses_page page_obj course_obj.
     filter (\<lambda>p. reverse_id p = Some ''courses'' \<and> publisher_is_draft p) (pages s)
       = [courses_page]
     \<and> pages s' = pages s @ [page_obj]
     \<and> courses s' = courses s @ [course_obj]
     \<and> payload ''course_code'' = Some (code course_obj)
     \<and> extended_object course_obj = page_obj
     \<and> parent page_obj = Some (page_id courses_page)
     \<and> \<not> in_navigation page_obj
     \<and> reverse_id page_obj = None
     \<and> template page_obj = Course_PAGE_template e
     \<and> payload ''course_title'' = Some (title page_obj)"
proof -
  from create_course_success [OF assms] show ?thesis
  proof (elim exE conjE)
    fix code' title' organization_code courses_page org_obj organization_page page_obj course_obj placeholder'
    assume fields: "payload ''course_code'' = Some code'" "payload ''course_title'' = Some title'"
      and root: "filter (\<lambda>p. reverse_id p = Some ''courses'' \<and> publisher_is_draft p) (pages s)
          = [courses_page]"
      and page: "page_obj = \<lparr>page_id = new_id (map page_id (pages s)), title = title',
          reverse_id = None, publisher_is_draft = True, parent = Some (page_id courses_page),
          in_navigation = False, template = Course_PAGE_template e,
          placeholders =
            map (\<lambda>sl. \<lparr>placeholder_page = new_id (map page_id (pages s)), slot = sl\<rparr>)
              (template_slots e (Course_PAGE_template e))\<rparr>"
      and course: "course_obj = \<lparr>course_id = new_id (map course_id (courses s)),
                      extended_object = page_obj, code = code'\<rparr>"
      and s': "s' = s\<lparr>pages := pages s @ [page_obj], courses := courses s @ [course_obj],
              page_roles := page_roles s @ [course_id course_obj],
              plugins := plugins s @
                [\<lparr>plugin_language = get_language e, plugin_placeholder = placeholder',
                  plugin_type = ''OrganizationPlugin'', plugin_page = organization_page\<rparr>],
              permissions := permissions s @ [(course_id course_obj, org_id org_obj)],
              journal := journal s @
                [PageCreated (page_id page_obj), CourseCreated (course_id course_obj),
                 PageRoleCreated (course_id course_obj),
                 PluginAdded placeholder' (page_id organization_page),
                 PermissionsGranted (course_id course_obj) (org_id org_obj)]\<rparr>"
    have p1: "pages s' = pages s @ [page_obj]" and p2: "courses s' = courses s @ [course_obj]"
      by (simp_all add: s')
    have c1: "payload ''course_code'' = Some (code course_obj)"
      and c2: "extended_object course_obj = page_obj"
      by (simp_all add: course fields)
    have g: "parent page_obj = Some (page_id courses_page)" "\<not> in_navigation page_obj"
      "reverse_id page_obj = None" "template page_obj = Course_PAGE_template e"
      "payload ''course_title'' = Some (title page_obj)"
      by (simp_all add: page fields)
    show ?thesis
      apply (rule exI [of _ courses_page])
      apply (rule exI [of _ page_obj])
      apply (rule exI [of _ course_obj])
      apply (simp only: root p1 p2 c1 c2 g simp_thms)
      done
  qed
qed

text \<open>In the example the code \<open>Cs101\<close> is stored as it was sent.\<close>

theorem course_and_page_created_as_given_witness:
  "fst (create_course example_env example_payload example_store) = Inr ()
   \<and> example_payload ''course_code'' = Some ''Cs101''
   \<and> map code (courses (snd (create_course example_env example_payload example_store)))
        = [''Cs101'']
   \<and> map parent (pages (snd (create_course example_env example_payload example_store)))
        = [None, None, Some (page_id courses_root_page)]
   \<and> map in_navigation (pages (snd (create_course example_env example_payload example_store)))
        = [True, True, False]"
proof -
  have run: "create_course example_env example_payload example_store
     = (Inr (), snd (create_course example_env example_payload example_store))"
    by (simp add: create_course_example)
  have closed: ?thesis
    by (simp add: create_course_example)
       (simp add: example_payload_def courses_root_page_def example_organization_page_def
          example_store_def)
  from course_and_page_created_as_given [OF run]
  show ?thesis
    by (elim exE conjE) (rule closed)
qed

subsection \<open>Lookups\<close>

text \<open>What \<^verbatim>\<open>create_course\<close> returns at each lookup, once the fields are present.\<close>

lemma create_course_lookups:
  assumes "payload ''course_code'' = Some c" and "payload ''course_title'' = Some t"
    and "payload ''organization_code'' = Some oc"
  shows no_courses_page:
      "filter (\<lambda>p. reverse_id p = Some ''courses'' \<and> publisher_is_draft p) (pages s) = []
       \<Longrightarrow> create_course e payload s = (Inl (DoesNotExist PageModel), s)"
    and no_organization:
      "filter (\<lambda>p. reverse_id p = Some ''courses'' \<and> publisher_is_draft p) (pages s)
         = [courses_page]
       \<Longrightarrow> filter (\<lambda>org. org_code org = upper e oc) (organizations s) = []
       \<Longrightarrow> create_course e payload s = (Inl (DoesNotExist OrganizationModel), s)"
    and no_organization_page:
      "filter (\<lambda>p. reverse_id p = Some ''courses'' \<and> publisher_is_draft p) (pages s)
         = [courses_page]
       \<Longrightarrow> filter (\<lambda>org. org_code org = upper e oc) (organizations s) = [org_obj]
       \<Longrightarrow> filter (\<lambda>p. list_ex (\<lambda>org. org_extended_object org = page_id p
                                  \<and> org_id org = org_id org_obj) (organizations s)
                   \<and> publisher_is_draft p) (pages s) = []
       \<Longrightarrow> create_course e payload s = (Inl (DoesNotExist PageModel), s)"
  using assms by (simp_all add: create_course_def objects_get_def)

lemma filter_slot:
  "filter (\<lambda>ph. slot ph = x) (map (\<lambda>sl. \<lparr>placeholder_page = i, slot = sl\<rparr>) sls)
     = map (\<lambda>sl. \<lparr>placeholder_page = i, slot = sl\<rparr>) (filter (\<lambda>sl. sl = x) sls)"
  by (induction sls) simp_all

lemma filter_eq_absent: "x \<notin> set xs \<Longrightarrow> filter (\<lambda>y. y = x) xs = []"
  by (induction xs) auto

lemma create_course_found:
  assumes "payload ''course_code'' = Some c" and "payload ''course_title'' = Some t"
    and "payload ''organization_code'' = Some oc"
    and "filter (\<lambda>p. reverse_id p = Some ''courses'' \<and> publisher_is_draft p) (pages s)
         = [courses_page]"
    and "filter (\<lambda>org. org_code org = upper e oc) (organizations s) = [org_obj]"
    and "filter (\<lambda>p. list_ex (\<lambda>org. org_extended_object org = page_id p
                                  \<and> org_id org = org_id org_obj) (organizations s)
                   \<and> publisher_is_draft p) (pages s) = [organization_page]"
  shows code_taken:
      "list_ex (\<lambda>c'. code c' = c) (courses s) \<Longrightarrow>
       create_course e payload s =
         (Inl IntegrityError,
          s\<lparr>pages := pages s @
               [\<lparr>page_id = new_id (map page_id (pages s)), title = t, reverse_id = None,
                 publisher_is_draft = True, parent = Some (page_id courses_page),
                 in_navigation = False, template = Course_PAGE_template e,
                 placeholders =
                   map (\<lambda>sl. \<lparr>placeholder_page = new_id (map page_id (pages s)), slot = sl\<rparr>)
                     (template_slots e (Course_PAGE_template e))\<rparr>],
            journal := journal s @ [PageCreated (new_id (map page_id (pages s)))]\<rparr>)"
    and no_placeholder:
      "\<not> list_ex (\<lambda>c'. code c' = c) (courses s) \<Longrightarrow>
       ''course_organizations'' \<notin> set (template_slots e (Course_PAGE_template e)) \<Longrightarrow>
       create_course e payload s =
         (Inl (DoesNotExist PlaceholderModel),
          s\<lparr>pages := pages s @
               [\<lparr>page_id = new_id (map page_id (pages s)), title = t, reverse_id = None,
                 publisher_is_draft = True, parent = Some (page_id courses_page),
                 in_navigation = False, template = Course_PAGE_template e,
                 placeholders =
                   map (\<lambda>sl. \<lparr>placeholder_page = new_id (map page_id (pages s)), slot = sl\<rparr>)
                     (template_slots e (Course_PAGE_template e))\<rparr>],
            courses := courses s @
               [\<lparr>course_id = new_id (map course_id (courses s)),
                 extended_object =
                   \<lparr>page_id = new_id (map page_id (pages s)), title = t, reverse_id = None,
                    publisher_is_draft = True, parent = Some (page_id courses_page),
                    in_navigation = False, template = Course_PAGE_template e,
                    placeholders =
                      map (\<lambda>sl. \<lparr>placeholder_page = new_id (map page_id (pages s)), slot = sl\<rparr>)
                        (template_slots e (Course_PAGE_template e))\<rparr>,
                 code = c\<rparr>],
            page_roles := page_roles s @ [new_id (map course_id (courses s))],
            journal := journal s @
               [PageCreated (new_id (map page_id (pages s))),
                CourseCreated (new_id (map course_id (courses s))),
                PageRoleCreated (new_id (map course_id (courses s)))]\<rparr>)"
    and created:
      "\<not> list_ex (\<lambda>c'. code c' = c) (courses s) \<Longrightarrow>
       filter (\<lambda>sl. sl = ''course_organizations'') (template_slots e (Course_PAGE_template e))
         = [''course_organizations''] \<Longrightarrow>
       create_course e payload s =
         (Inr (),
          s\<lparr>pages := pages s @
               [\<lparr>page_id = new_id (map page_id (pages s)), title = t, reverse_id = None,
                 publisher_is_draft = True, parent = Some (page_id courses_page),
                 in_navigation = False, template = Course_PAGE_template e,
                 placeholders =
                   map (\<lambda>sl. \<lparr>placeholder_page = new_id (map page_id (pages s)), slot = sl\<rparr>)
                     (template_slots e (Course_PAGE_template e))\<rparr>],
            courses := courses s @
               [\<lparr>course_id = new_id (map course_id (courses s)),
                 extended_object =
                   \<lparr>page_id = new_id (map page_id (pages s)), title = t, reverse_id = None,
                    publisher_is_draft = True, parent = Some (page_id courses_page),
                    in_navigation = False, template = Course_PAGE_template e,
                    placeholders =
                      map (\<lambda>sl. \<lparr>placeholder_page = new_id (map page_id (pages s)), slot = sl\<rparr>)
                        (template_slots e (Course_PAGE_template e))\<rparr>,
                 code = c\<rparr>],
            page_roles := page_roles s @ [new_id (map course_id (courses s))],
            plugins := plugins s @
               [\<lparr>plugin_language = get_language e,
                 plugin_placeholder =
                   \<lparr>placeholder_page = new_id (map page_id (pages s)),
                    slot = ''course_organizations''\<rparr>,
                 plugin_type = ''OrganizationPlugin'', plugin_page = organization_page\<rparr>],
            permissions := permissions s @
               [(new_id (map course_id (courses s)), org_id org_obj)],
            journal := journal s @
               [PageCreated (new_id (map page_id (pages s))),
                CourseCreated (new_id (map course_id (courses s))),
                PageRoleCreated (new_id (map course_id (courses s))),
                PluginAdded \<lparr>placeholder_page = new_id (map page_id (pages s)),
                             slot = ''course_organizations''\<rparr> (page_id organization_page),
                PermissionsGranted (new_id (map course_id (courses s))) (org_id org_obj)]\<rparr>)"
  using assms
  by (simp_all add: create_course_def objects_get_def create_i18n_page_def
        Course_objects_create_def create_page_role_def add_plugin_def
        create_permissions_for_organization_def Let_def filter_slot filter_eq_absent)

lemma endpoint_propagates:
  assumes "decode_utf8 (body request) = Some message"
    and "headers request ''Authorization'' = Some authorization_header"
    and "authorization_header \<noteq> []"
    and "signature_is_valid e authorization_header message"
    and "create_course e (data request) s = (Inl err, s')"
    and "err \<noteq> missing_fields"
  shows "create_courses_from_request e request version s = (Inl err, s')"
proof -
  have "\<And>detail. err \<noteq> ValidationError detail"
    using create_course_validation assms(5,6) by blast
  then show ?thesis
    using endpoint_authenticated [OF assms(1-4), of version s] assms(5)
    by (cases err) auto
qed

lemma endpoint_never_400:
  assumes "decode_utf8 (body request) = Some message"
    and "headers request ''Authorization'' = Some authorization_header"
    and "authorization_header \<noteq> []"
    and "signature_is_valid e authorization_header message"
    and "data request ''course_code'' = Some c"
    and "data request ''course_title'' = Some t"
    and "data request ''organization_code'' = Some oc"
    and "create_courses_from_request e request version s = (Inr response, s')"
  shows "response = Response (Dict []) 200"
proof -
  obtain r s'' where run: "create_course e (data request) s = (r, s'')"
    by (cases "create_course e (data request) s")
  show ?thesis
  proof (cases r)
    case (Inr u)
    then show ?thesis
      using endpoint_authenticated [OF assms(1-4), of version s] run assms(8) by simp
  next
    case (Inl err)
    have "\<And>detail. err \<noteq> ValidationError detail"
      using create_course_validation [of e "data request" s _ s''] run Inl assms(5-7)
      by auto
    then show ?thesis
      using endpoint_authenticated [OF assms(1-4), of version s] run Inl assms(8)
      by (cases err) auto
  qed
qed

lemma example_lookups:
  "filter (\<lambda>p. reverse_id p = Some ''courses'' \<and> publisher_is_draft p) (pages example_store)
     = [courses_root_page]"
  "filter (\<lambda>org. org_code org = upper example_env ''org123'') (organizations example_store)
     = [example_organization]"
  "filter (\<lambda>p. list_ex (\<lambda>org. org_extended_object org = page_id p
                               \<and> org_id org = org_id example_organization)
                   (organizations example_store)
                \<and> publisher_is_draft p) (pages example_store)
     = [example_organization_page]"
  "\<not> list_ex (\<lambda>c'. code c' = ''Cs101'') (courses example_store)"
  "filter (\<lambda>sl. sl = ''course_organizations'')
     (template_slots example_env (Course_PAGE_template example_env))
     = [''course_organizations'']"
  "filter (\<lambda>org. org_code org = upper example_env ''org999'') (organizations example_store)
     = []"
  by (simp_all add: example_defs)

lemma failing_lookups:
  "filter (\<lambda>p. reverse_id p = Some ''courses'' \<and> publisher_is_draft p)
     (pages store_without_courses_page) = []"
  "filter (\<lambda>p. reverse_id p = Some ''courses'' \<and> publisher_is_draft p)
     (pages store_without_organization_page) = [courses_root_page]"
  "filter (\<lambda>org. org_code org = upper example_env ''org123'')
     (organizations store_without_organization_page) = [example_organization]"
  "filter (\<lambda>p. list_ex (\<lambda>org. org_extended_object org = page_id p
                               \<and> org_id org = org_id example_organization)
                   (organizations store_without_organization_page)
                \<and> publisher_is_draft p) (pages store_without_organization_page) = []"
  "filter (\<lambda>org. org_code org = upper env_without_slot ''org123'')
     (organizations example_store) = [example_organization]"
  "''course_organizations''
     \<notin> set (template_slots env_without_slot (Course_PAGE_template env_without_slot))"
  by (simp_all add: example_defs)

lemma example_fields:
  "data example_request ''course_code'' = Some ''Cs101''"
  "data example_request ''course_title'' = Some ''Algebra''"
  "data example_request ''organization_code'' = Some ''org123''"
  by (simp_all add: example_request_def example_payload_def)

lemma unknown_organization_request:
  "decode_utf8 (body request_with_unknown_organization) = Some example_message"
  "headers request_with_unknown_organization ''Authorization''
     = Some (example_signature example_message ''new-secret'')"
  "data request_with_unknown_organization ''course_code'' = Some ''Cs101''"
  "data request_with_unknown_organization ''course_title'' = Some ''Algebra''"
  "data request_with_unknown_organization ''organization_code'' = Some ''org999''"
  by (simp_all add: request_with_unknown_organization_def example_request_def
        decode_example_body)

lemma env_without_slot_valid:
  "signature_is_valid env_without_slot (example_signature example_message ''new-secret'')
     example_message"
  by (simp add: signature_is_valid_def secrets_def env_without_slot_def example_env_def)

lemma empty_fields:
  "data request_with_empty_fields ''course_code'' = Some []"
  "data request_with_empty_fields ''course_title'' = Some []"
  "data request_with_empty_fields ''organization_code'' = Some []"
  by (simp_all add: request_with_empty_fields_def)

lemma unnamed_organization_lookups:
  "filter (\<lambda>p. reverse_id p = Some ''courses'' \<and> publisher_is_draft p)
     (pages store_with_unnamed_organization) = [courses_root_page]"
  "filter (\<lambda>org. org_code org = upper example_env [])
     (organizations store_with_unnamed_organization)
     = [example_organization\<lparr>org_code := []\<rparr>]"
  "filter (\<lambda>p. list_ex (\<lambda>org. org_extended_object org = page_id p
                               \<and> org_id org = org_id (example_organization\<lparr>org_code := []\<rparr>))
                   (organizations store_with_unnamed_organization)
                \<and> publisher_is_draft p) (pages store_with_unnamed_organization)
     = [example_organization_page]"
  by (simp_all add: example_defs)

text \<open>
  Claim C4. For an authenticated request whose payload has the three fields, every
  exception of \<^verbatim>\<open>create_course\<close> leaves the endpoint as it was raised, with the
  store as the exception left it, and no response has status 400. In particular the
  endpoint raises \<open>DoesNotExist\<close> when there is no draft page with the reverse
  identifier \<open>courses\<close>, when no organization has the uppercased code, when the
  organization has no draft page, and when the template of the course page declares no
  \<open>course_organizations\<close> slot.
\<close>

theorem lookup_failures_propagate:
  assumes "decode_utf8 (body request) = Some message"
    and "headers request ''Authorization'' = Some authorization_header"
    and "authorization_header \<noteq> []"
    and "signature_is_valid e authorization_header message"
    and "data request ''course_code'' = Some c"
    and "data request ''course_title'' = Some t"
    and "data request ''organization_code'' = Some oc"
  shows
    "(\<forall>err s'. create_course e (data request) s = (Inl err, s') \<longrightarrow>
        create_courses_from_request e request version s = (Inl err, s'))
     \<and> (\<forall>response s'. create_courses_from_request e request version s = (Inr response, s')
          \<longrightarrow> status response \<noteq> 400)
     \<and> (filter (\<lambda>p. reverse_id p = Some ''courses'' \<and> publisher_is_draft p) (pages s) = []
          \<longrightarrow> create_courses_from_request e request version s
                = (Inl (DoesNotExist PageModel), s))
     \<and> (\<forall>courses_page.
          filter (\<lambda>p. reverse_id p = Some ''courses'' \<and> publisher_is_draft p) (pages s)
            = [courses_page]
          \<and> filter (\<lambda>org. org_code org = upper e oc) (organizations s) = []
          \<longrightarrow> create_courses_from_request e request version s
                = (Inl (DoesNotExist OrganizationModel), s))
     \<and> (\<forall>courses_page org_obj.
          filter (\<lambda>p. reverse_id p = Some ''courses'' \<and> publisher_is_draft p) (pages s)
            = [courses_page]
          \<and> filter (\<lambda>org. org_code org = upper e oc) (organizations s) = [org_obj]
          \<and> filter (\<lambda>p. list_ex (\<lambda>org. org_extended_object org = page_id p
                                        \<and> org_id org = org_id org_obj) (organizations s)
                         \<and> publisher_is_draft p) (pages s) = []
          \<longrightarrow> create_courses_from_request e request version s
                = (Inl (DoesNotExist PageModel), s))
     \<and> (\<forall>courses_page org_obj organization_page.
          filter (\<lambda>p. reverse_id p = Some ''courses'' \<and> publisher_is_draft p) (pages s)
            = [courses_page]
          \<and> filter (\<lambda>org. org_code org = upper e oc) (organizations s) = [org_obj]
          \<and> filter (\<lambda>p. list_ex (\<lambda>org. org_extended_object org = page_id p
                                        \<and> org_id org = org_id org_obj) (organizations s)
                         \<and> publisher_is_draft p) (pages s) = [organization_page]
          \<and> \<not> list_ex (\<lambda>c'. code c' = c) (courses s)
          \<and> ''course_organizations'' \<notin> set (template_slots e (Course_PAGE_template e))
          \<longrightarrow> fst (create_courses_from_request e request version s)
                = Inl (DoesNotExist PlaceholderModel))"
proof -
  note auth = assms(1-4)
  note fields = assms(5-7)
  have not_missing: "err \<noteq> missing_fields"
    if "create_course e (data request) s = (Inl err, s')" for err s'
    using create_course_validation [of e "data request" s _ s'] that fields
    by (auto simp: missing_fields_def)
  have propagate: "create_courses_from_request e request version s = (Inl err, s')"
    if "create_course e (data request) s = (Inl err, s')" for err s'
    using endpoint_propagates [OF auth that not_missing [OF that]] .
  have no_400: "status response \<noteq> 400"
    if "create_courses_from_request e request version s = (Inr response, s')"
    for response s'
    using endpoint_never_400 [OF auth fields that] by simp
  have l1: "create_courses_from_request e request version s
              = (Inl (DoesNotExist PageModel), s)"
    if "filter (\<lambda>p. reverse_id p = Some ''courses'' \<and> publisher_is_draft p) (pages s) = []"
    using propagate [OF no_courses_page [OF fields that]] .
  have l2: "create_courses_from_request e request version s
              = (Inl (DoesNotExist OrganizationModel), s)"
    if "filter (\<lambda>p. reverse_id p = Some ''courses'' \<and> publisher_is_draft p) (pages s)
            = [courses_page]"
      and "filter (\<lambda>org. org_code org = upper e oc) (organizations s) = []"
    for courses_page
    using propagate [OF no_organization [OF fields that]] .
  have l3: "create_courses_from_request e request version s
              = (Inl (DoesNotExist PageModel), s)"
    if "filter (\<lambda>p. reverse_id p = Some ''courses'' \<and> publisher_is_draft p) (pages s)
            = [courses_page]"
      and "filter (\<lambda>org. org_code org = upper e oc) (organizations s) = [org_obj]"
      and "filter (\<lambda>p. list_ex (\<lambda>org. org_extended_object org = page_id p
                                        \<and> org_id org = org_id org_obj) (organizations s)
                         \<and> publisher_is_draft p) (pages s) = []"
    for courses_page org_obj
    using propagate [OF no_organization_page [OF fields that]] .
  have l4: "fst (create_courses_from_request e request version s)
              = Inl (DoesNotExist PlaceholderModel)"
    if "filter (\<lambda>p. reverse_id p = Some ''courses'' \<and> publisher_is_draft p) (pages s)
            = [courses_page]"
      and "filter (\<lambda>org. org_code org = upper e oc) (organizations s) = [org_obj]"
      and "filter (\<lambda>p. list_ex (\<lambda>org. org_extended_object org = page_id p
                                        \<and> org_id org = org_id org_obj) (organizations s)
                         \<and> publisher_is_draft p) (pages s) = [organization_page]"
      and "\<not> list_ex (\<lambda>c'. code c' = c) (courses s)"
      and "''course_organizations'' \<notin> set (template_slots e (Course_PAGE_template e))"
    for courses_page org_obj organization_page
    using propagate [OF no_placeholder [OF fields that]] by simp
  show ?thesis
    apply (intro conjI allI impI)
         apply (erule propagate)
        apply (erule no_400)
       apply (erule l1)
      apply (elim conjE, erule (1) l2)
     apply (elim conjE, erule (2) l3)
    apply (elim conjE, erule (4) l4)
    done
qed

text \<open>
  The four lookup failures on the example installation: the store without the courses
  page, the request for the unknown organization \<open>org999\<close>, the store without the page
  of the organization, the template without the slot.
\<close>

theorem lookup_failures_propagate_witness:
  "create_courses_from_request example_env example_request ''1.0'' store_without_courses_page
     = (Inl (DoesNotExist PageModel), store_without_courses_page)
   \<and> create_courses_from_request example_env request_with_unknown_organization ''1.0''
       example_store
     = (Inl (DoesNotExist OrganizationModel), example_store)
   \<and> create_courses_from_request example_env example_request ''1.0''
       store_without_organization_page
     = (Inl (DoesNotExist PageModel), store_without_organization_page)
   \<and> fst (create_courses_from_request env_without_slot example_request ''1.0'' example_store)
     = Inl (DoesNotExist PlaceholderModel)"
proof -
  note auth = example_request_authenticated
  have r1: "create_courses_from_request example_env example_request ''1.0''
              store_without_courses_page
            = (Inl (DoesNotExist PageModel), store_without_courses_page)"
    using lookup_failures_propagate [OF auth example_fields, of store_without_courses_page
        "''1.0''"] failing_lookups(1)
    by (elim conjE) (erule mp)
  have r2: "create_courses_from_request example_env request_with_unknown_organization ''1.0''
              example_store
            = (Inl (DoesNotExist OrganizationModel), example_store)"
    using lookup_failures_propagate [OF unknown_organization_request(1,2) auth(3,4)
        unknown_organization_request(3-5), of example_store "''1.0''"]
      example_lookups(1,6)
    by (elim conjE) blast
  have r3: "create_courses_from_request example_env example_request ''1.0''
              store_without_organization_page
            = (Inl (DoesNotExist PageModel), store_without_organization_page)"
    using lookup_failures_propagate [OF auth example_fields,
        of store_without_organization_page "''1.0''"] failing_lookups(2-4)
    by (elim conjE) blast
  have r4: "fst (create_courses_from_request env_without_slot example_request ''1.0''
              example_store)
            = Inl (DoesNotExist PlaceholderModel)"
    using lookup_failures_propagate [OF auth(1-3) env_without_slot_valid example_fields,
        of example_store "''1.0''"] example_lookups(1,3,4) failing_lookups(5,6)
    by (elim conjE) blast
  show ?thesis using r1 r2 r3 r4 by simp
qed

text \<open>
  Claim C10. When the three keys are present in the payload, whatever their values,
  \<^verbatim>\<open>create_course\<close> raises no validation error and goes on to the lookups and the
  creation: without a courses page it raises the \<open>DoesNotExist\<close> of the first lookup,
  and when the three lookups succeed it creates the page with the title of the payload.
\<close>

theorem present_fields_pass_validation:
  assumes "payload ''course_code'' = Some c" and "payload ''course_title'' = Some t"
    and "payload ''organization_code'' = Some oc"
  shows "(\<forall>detail s'. create_course e payload s \<noteq> (Inl (ValidationError detail), s'))
     \<and> (filter (\<lambda>p. reverse_id p = Some ''courses'' \<and> publisher_is_draft p) (pages s) = []
          \<longrightarrow> create_course e payload s = (Inl (DoesNotExist PageModel), s))
     \<and> (\<forall>courses_page org_obj organization_page.
          filter (\<lambda>p. reverse_id p = Some ''courses'' \<and> publisher_is_draft p) (pages s)
            = [courses_page]
          \<and> filter (\<lambda>org. org_code org = upper e oc) (organizations s) = [org_obj]
          \<and> filter (\<lambda>p. list_ex (\<lambda>org. org_extended_object org = page_id p
                                        \<and> org_id org = org_id org_obj) (organizations s)
                         \<and> publisher_is_draft p) (pages s) = [organization_page]
          \<longrightarrow> (\<exists>page_obj.
                 pages (snd (create_course e payload s)) = pages s @ [page_obj]
                 \<and> title page_obj = t \<and> parent page_obj = Some (page_id courses_page)))"
proof -
  have no_validation: "create_course e payload s \<noteq> (Inl (ValidationError detail), s')"
    for detail s'
    using create_course_validation [of e payload s detail s'] assms by auto
  have lookup: "create_course e payload s = (Inl (DoesNotExist PageModel), s)"
    if "filter (\<lambda>p. reverse_id p = Some ''courses'' \<and> publisher_is_draft p) (pages s) = []"
    using no_courses_page [OF assms that] .
  have creation: "\<exists>page_obj.
        pages (snd (create_course e payload s)) = pages s @ [page_obj]
        \<and> title page_obj = t \<and> parent page_obj = Some (page_id courses_page)"
    if "filter (\<lambda>p. reverse_id p = Some ''courses'' \<and> publisher_is_draft p) (pages s)
            = [courses_page]"
      and "filter (\<lambda>org. org_code org = upper e oc) (organizations s) = [org_obj]"
      and "filter (\<lambda>p. list_ex (\<lambda>org. org_extended_object org = page_id p
                                        \<and> org_id org = org_id org_obj) (organizations s)
                         \<and> publisher_is_draft p) (pages s) = [organization_page]"
    for courses_page org_obj organization_page
    using assms that
    by (simp add: create_course_def objects_get_def create_i18n_page_def
          Course_objects_create_def create_page_role_def add_plugin_def
          create_permissions_for_organization_def Let_def
        split: list.splits)
  show ?thesis
    apply (intro conjI allI impI)
      apply (rule no_validation)
     apply (erule lookup)
    apply (elim conjE, erule (2) creation)
    done
qed

text \<open>
  The payload whose three values are empty strings: the first lookup is reached on the
  store without a courses page, and a page with the empty title is created on the store
  whose organization has the empty code.
\<close>

theorem present_fields_pass_validation_witness:
  "data request_with_empty_fields ''course_code'' = Some []
   \<and> data request_with_empty_fields ''course_title'' = Some []
   \<and> data request_with_empty_fields ''organization_code'' = Some []
   \<and> create_course example_env (data request_with_empty_fields) store_without_courses_page
       = (Inl (DoesNotExist PageModel), store_without_courses_page)
   \<and> fst (create_course example_env (data request_with_empty_fields)
             store_with_unnamed_organization) = Inr ()
   \<and> map title (pages (snd (create_course example_env (data request_with_empty_fields)
                               store_with_unnamed_organization)))
       = [''Courses'', ''Organization 123'', []]"
proof -
  have r1: "create_course example_env (data request_with_empty_fields)
              store_without_courses_page
            = (Inl (DoesNotExist PageModel), store_without_courses_page)"
    using present_fields_pass_validation [OF empty_fields, of example_env
        store_without_courses_page] failing_lookups(1)
    by (elim conjE) (erule mp)
  have "\<exists>page_obj.
      pages (snd (create_course example_env (data request_with_empty_fields)
                    store_with_unnamed_organization))
        = pages store_with_unnamed_organization @ [page_obj]
      \<and> title page_obj = [] \<and> parent page_obj = Some (page_id courses_root_page)"
    using present_fields_pass_validation [OF empty_fields, of example_env
        store_with_unnamed_organization] unnamed_organization_lookups
    by (elim conjE) blast
  then have r2: "map title (pages (snd (create_course example_env
                    (data request_with_empty_fields) store_with_unnamed_organization)))
       = [''Courses'', ''Organization 123'', []]"
    by (auto simp: example_defs)
  have r3: "fst (create_course example_env (data request_with_empty_fields)
             store_with_unnamed_organization) = Inr ()"
    by (simp add: request_with_empty_fields_def example_defs operation_defs)
  show ?thesis using empty_fields r1 r2 r3 by simp
qed

text \<open>
  Claim C5, amended. For an authenticated request with the three fields, when the store
  has exactly one draft page with the reverse identifier \<open>courses\<close>, exactly one
  organization whose code is the uppercased \<open>organization_code\<close> of the payload, exactly
  one draft page of that organization and no course with the \<open>course_code\<close> of the
  payload, and the template of the course page declares the \<open>course_organizations\<close>
  slot once, then the endpoint returns status 200 with the body \<open>{}\<close>, the course is
  created with the code of the payload, and the plugin and the permissions are those of
  the organization that was located by the uppercased code.
\<close>

theorem course_created_for_existing_organization:
  assumes "decode_utf8 (body request) = Some message"
    and "headers request ''Authorization'' = Some authorization_header"
    and "authorization_header \<noteq> []"
    and "signature_is_valid e authorization_header message"
    and "data request ''course_code'' = Some c"
    and "data request ''course_title'' = Some t"
    and "data request ''organization_code'' = Some oc"
    and "filter (\<lambda>p. reverse_id p = Some ''courses'' \<and> publisher_is_draft p) (pages s)
           = [courses_page]"
    and "filter (\<lambda>org. org_code org = upper e oc) (organizations s) = [org_obj]"
    and "filter (\<lambda>p. list_ex (\<lambda>org. org_extended_object org = page_id p
                                       \<and> org_id org = org_id org_obj) (organizations s)
                        \<and> publisher_is_draft p) (pages s) = [organization_page]"
    and "\<not> list_ex (\<lambda>c'. code c' = c) (courses s)"
    and "filter (\<lambda>sl. sl = ''course_organizations'')
           (template_slots e (Course_PAGE_template e)) = [''course_organizations'']"
  shows "\<exists>s' page_obj course_obj.
      create_courses_from_request e request version s = (Inr (Response (Dict []) 200), s')
      \<and> org_code org_obj = upper e oc
      \<and> pages s' = pages s @ [page_obj]
      \<and> courses s' = courses s @ [course_obj]
      \<and> code course_obj = c
      \<and> extended_object course_obj = page_obj
      \<and> title page_obj = t
      \<and> plugins s' = plugins s @
            [\<lparr>plugin_language = get_language e,
              plugin_placeholder =
                \<lparr>placeholder_page = page_id page_obj, slot = ''course_organizations''\<rparr>,
              plugin_type = ''OrganizationPlugin'', plugin_page = organization_page\<rparr>]
      \<and> permissions s' = permissions s @ [(course_id course_obj, org_id org_obj)]"
proof -
  have "org_obj \<in> set (filter (\<lambda>org. org_code org = upper e oc) (organizations s))"
    by (simp add: assms(9))
  then have located: "org_code org_obj = upper e oc" by simp
  note run = created [OF assms(5-12)]
  have response: "create_courses_from_request e request version s =
      (Inr (Response (Dict []) 200), snd (create_course e (data request) s))"
    using endpoint_authenticated [OF assms(1-4), of version s] run by simp
  show ?thesis
    apply (rule exI [of _ "snd (create_course e (data request) s)"])
    apply (rule exI [of _ "last (pages (snd (create_course e (data request) s)))"])
    apply (rule exI [of _ "last (courses (snd (create_course e (data request) s)))"])
    apply (simp only: response located simp_thms)
    apply (simp add: run)
    done
qed

text \<open>
  The example request, whose \<open>organization_code\<close> is \<open>org123\<close>, finds the
  organization stored as \<open>ORG123\<close> and gets the 200 response.
\<close>

theorem course_created_for_existing_organization_witness:
  "upper example_env ''org123'' = ''ORG123''
   \<and> org_code example_organization = ''ORG123''
   \<and> fst (create_courses_from_request example_env example_request ''1.0'' example_store)
       = Inr (Response (Dict []) 200)
   \<and> map code (courses (snd (create_courses_from_request example_env example_request ''1.0''
                               example_store))) = [''Cs101'']"
proof -
  have up: "upper example_env ''org123'' = ''ORG123''"
    by (simp add: example_env_def ascii_upper_def)
  have org: "org_code example_organization = ''ORG123''"
    by (simp add: example_organization_def)
  from course_created_for_existing_organization [OF example_request_authenticated
      example_fields example_lookups(1-5), of "''1.0''"]
  obtain s' page_obj course_obj where
    run: "create_courses_from_request example_env example_request ''1.0'' example_store
            = (Inr (Response (Dict []) 200), s')"
    and cs: "courses s' = courses example_store @ [course_obj]"
    and c: "code course_obj = ''Cs101''"
    by (elim exE conjE)
  have "courses example_store = []" by (simp add: example_store_def)
  then show ?thesis using up org run cs c by simp
qed

text \<open>
  Claim C5 as stated fails: the same authenticated request, complete and valid, with the
  organization \<open>ORG123\<close> in the store, on a store that has no courses root page. The
  first lookup raises and the endpoint returns no response.
\<close>

theorem course_created_for_existing_organization_counterexample:
  "decode_utf8 (body example_request) = Some example_message
   \<and> headers example_request ''Authorization''
       = Some (get_signature example_env example_message ''new-secret'')
   \<and> signature_is_valid example_env (get_signature example_env example_message ''new-secret'')
        example_message
   \<and> data example_request ''course_code'' = Some ''Cs101''
   \<and> data example_request ''course_title'' = Some ''Algebra''
   \<and> data example_request ''organization_code'' = Some ''org123''
   \<and> organizations store_without_courses_page = [example_organization]
   \<and> org_code example_organization = ''ORG123''
   \<and> create_courses_from_request example_env example_request ''1.0''
        store_without_courses_page
       = (Inl (DoesNotExist PageModel), store_without_courses_page)
   \<and> fst (create_courses_from_request example_env example_request ''1.0''
             store_without_courses_page)
       \<noteq> Inr (Response (Dict []) 200)"
proof -
  have sig: "get_signature example_env = example_signature"
    by (simp add: example_env_def)
  have orgs: "organizations store_without_courses_page = [example_organization]"
    by (simp add: store_without_courses_page_def example_store_def)
  have org: "org_code example_organization = ''ORG123''"
    by (simp add: example_organization_def)
  have run: "create_course example_env (data example_request) store_without_courses_page
       = (Inl (DoesNotExist PageModel), store_without_courses_page)"
    using no_courses_page [OF example_fields failing_lookups(1)] .
  have result: "create_courses_from_request example_env example_request ''1.0''
        store_without_courses_page
       = (Inl (DoesNotExist PageModel), store_without_courses_page)"
    using endpoint_authenticated [OF example_request_authenticated,
        of "''1.0''" store_without_courses_page] run
    by simp
  show ?thesis
    using example_request_authenticated example_fields orgs org sig
    by (simp add: result)
qed

subsection \<open>Authentication failures\<close>

text \<open>
  Claim C2, amended. For every request whose body is valid UTF-8: without an
  \<open>Authorization\<close> header the endpoint returns status 403 with the text
  \<open>Missing authentication.\<close>; with a non-empty header that no configured secret signs,
  it returns status 401 with the text \<open>Invalid authentication.\<close>. The two responses
  differ in status and in body.
\<close>

theorem authentication_failures:
  assumes "decode_utf8 (body request) = Some message"
  shows "(headers request ''Authorization'' = None \<longrightarrow>
            create_courses_from_request e request version s
              = (Inr (Response (Text ''Missing authentication.'') 403), s))
     \<and> (\<forall>authorization_header.
           headers request ''Authorization'' = Some authorization_header
           \<and> authorization_header \<noteq> []
           \<and> \<not> (\<exists>secret \<in> set (secrets e).
                    authorization_header = get_signature e message secret)
           \<longrightarrow> create_courses_from_request e request version s
                 = (Inr (Response (Text ''Invalid authentication.'') 401), s))
     \<and> status (Response (Text ''Missing authentication.'') 403)
          \<noteq> status (Response (Text ''Invalid authentication.'') 401)
     \<and> response_data (Response (Text ''Missing authentication.'') 403)
          \<noteq> response_data (Response (Text ''Invalid authentication.'') 401)"
  using assms
  by (simp add: create_courses_from_request_def signature_is_valid_iff)

text \<open>
  The example request without its header gets the 403 response, and with a header
  signed by an unknown secret the 401 response.
\<close>

theorem authentication_failures_witness:
  "decode_utf8 (body request_without_header) = Some example_message
   \<and> headers request_without_header ''Authorization'' = None
   \<and> create_courses_from_request example_env request_without_header ''1.0'' example_store
       = (Inr (Response (Text ''Missing authentication.'') 403), example_store)
   \<and> decode_utf8 (body request_with_wrong_header) = Some example_message
   \<and> headers request_with_wrong_header ''Authorization''
       = Some (example_signature example_message ''other-secret'')
   \<and> create_courses_from_request example_env request_with_wrong_header ''1.0'' example_store
       = (Inr (Response (Text ''Invalid authentication.'') 401), example_store)"
proof -
  have d1: "decode_utf8 (body request_without_header) = Some example_message"
    and h1: "headers request_without_header ''Authorization'' = None"
    by (simp_all add: request_without_header_def example_request_def decode_example_body)
  have d2: "decode_utf8 (body request_with_wrong_header) = Some example_message"
    and h2: "headers request_with_wrong_header ''Authorization''
       = Some (example_signature example_message ''other-secret'')"
    by (simp_all add: request_with_wrong_header_def example_request_def decode_example_body)
  have wrong: "\<not> (\<exists>secret \<in> set (secrets example_env).
      example_signature example_message ''other-secret''
        = get_signature example_env example_message secret)"
    using wrong_header_invalid by (simp add: signature_is_valid_iff)
  have r1: "create_courses_from_request example_env request_without_header ''1.0''
              example_store
       = (Inr (Response (Text ''Missing authentication.'') 403), example_store)"
    using authentication_failures [OF d1, of example_env "''1.0''" example_store] h1
    by (elim conjE) (erule mp)
  have r2: "create_courses_from_request example_env request_with_wrong_header ''1.0''
              example_store
       = (Inr (Response (Text ''Invalid authentication.'') 401), example_store)"
    using authentication_failures [OF d2, of example_env "''1.0''" example_store] h2 wrong
      example_signature_nonempty [of example_message "''other-secret''"]
    by (elim conjE) blast
  show ?thesis using d1 h1 r1 d2 h2 r2 by simp
qed

text \<open>
  Claim C2 as stated fails at two requests. The header of the first is present and
  empty, and no configured secret signs it: the response is 403, not 401. The second has
  no header and the body 0xFF, which is not UTF-8: decoding the body raises before the
  header is looked at, and there is no response.
\<close>

theorem authentication_failures_counterexample:
  "decode_utf8 (body request_with_empty_header) = Some example_message
   \<and> headers request_with_empty_header ''Authorization'' = Some []
   \<and> \<not> signature_is_valid example_env [] example_message
   \<and> create_courses_from_request example_env request_with_empty_header ''1.0'' example_store
       = (Inr (Response (Text ''Missing authentication.'') 403), example_store)
   \<and> create_courses_from_request example_env request_with_empty_header ''1.0'' example_store
       \<noteq> (Inr (Response (Text ''Invalid authentication.'') 401), example_store)
   \<and> headers undecodable_request ''Authorization'' = None
   \<and> create_courses_from_request example_env undecodable_request ''1.0'' example_store
       = (Inl UnicodeDecodeError, example_store)
   \<and> create_courses_from_request example_env undecodable_request ''1.0'' example_store
       \<noteq> (Inr (Response (Text ''Missing authentication.'') 403), example_store)"
proof -
  have d: "decode_utf8 (body request_with_empty_header) = Some example_message"
    and h: "headers request_with_empty_header ''Authorization'' = Some []"
    by (simp_all add: request_with_empty_header_def example_request_def decode_example_body)
  have inv: "\<not> signature_is_valid example_env [] example_message"
    by (simp add: signature_is_valid_def secrets_example_env)
       (simp add: example_env_def example_signature_def)
  have r1: "create_courses_from_request example_env request_with_empty_header ''1.0''
              example_store
       = (Inr (Response (Text ''Missing authentication.'') 403), example_store)"
    using d h by (simp add: create_courses_from_request_def)
  have h2: "headers undecodable_request ''Authorization'' = None"
    by (simp add: undecodable_request_def)
  have r2: "create_courses_from_request example_env undecodable_request ''1.0'' example_store
       = (Inl UnicodeDecodeError, example_store)"
    by (simp add: create_courses_from_request_def undecodable_request_def)
  show ?thesis using d h inv h2 by (simp add: r1 r2)
qed

text \<open>
  Claim C9, amended. A request whose \<open>Authorization\<close> header is the empty string is
  treated as the same request without the header, whatever the secrets: the outcome is
  the same, it is never a 401 response, and when the body is valid UTF-8 it is the 403
  response with the text \<open>Missing authentication.\<close>.
\<close>

theorem empty_header_is_missing_header:
  assumes "headers request ''Authorization'' = Some []"
  shows "create_courses_from_request e request version s
           = create_courses_from_request e
               (request\<lparr>headers := (headers request)(''Authorization'' := None)\<rparr>) version s
     \<and> (\<forall>response s'. create_courses_from_request e request version s = (Inr response, s')
           \<longrightarrow> status response \<noteq> 401)
     \<and> (\<forall>message. decode_utf8 (body request) = Some message \<longrightarrow>
           create_courses_from_request e request version s
             = (Inr (Response (Text ''Missing authentication.'') 403), s))"
  using assms
  by (auto simp: create_courses_from_request_def split: option.splits)

text \<open>
  The example request with an empty header gets the 403 response.
\<close>

theorem empty_header_is_missing_header_witness:
  "headers request_with_empty_header ''Authorization'' = Some []
   \<and> decode_utf8 (body request_with_empty_header) = Some example_message
   \<and> create_courses_from_request example_env request_with_empty_header ''1.0'' example_store
       = (Inr (Response (Text ''Missing authentication.'') 403), example_store)"
proof -
  have d: "decode_utf8 (body request_with_empty_header) = Some example_message"
    and h: "headers request_with_empty_header ''Authorization'' = Some []"
    by (simp_all add: request_with_empty_header_def example_request_def decode_example_body)
  have "create_courses_from_request example_env request_with_empty_header ''1.0''
          example_store
       = (Inr (Response (Text ''Missing authentication.'') 403), example_store)"
    using empty_header_is_missing_header [OF h, of example_env "''1.0''" example_store] d
    by (elim conjE) blast
  then show ?thesis using d h by simp
qed

text \<open>
  Claim C9 as stated fails at the request with an empty header and the body 0xFF:
  decoding the body raises, and the endpoint returns no 403 response.
\<close>

theorem empty_header_is_missing_header_counterexample:
  "headers undecodable_request_with_empty_header ''Authorization'' = Some []
   \<and> create_courses_from_request example_env undecodable_request_with_empty_header ''1.0''
        example_store
       = (Inl UnicodeDecodeError, example_store)
   \<and> create_courses_from_request example_env undecodable_request_with_empty_header ''1.0''
        example_store
       \<noteq> (Inr (Response (Text ''Missing authentication.'') 403), example_store)"
  by (simp add: create_courses_from_request_def undecodable_request_with_empty_header_def)

end
